theory Spec2Isabelle
  imports Main
begin

section \<open>Python values, exceptions and string primitives\<close>

text \<open>
  The service is a Python program.  A raised exception is a value of the model: a function
  that can raise returns a \<open>result\<close>, and every \<open>try\<close>/\<open>except\<close> of the source is a case
  distinction on it.  An exception carries its class and the message \<open>str(e)\<close>.
\<close>

datatype exc_class =
    ExpiredSignatureError
  | InvalidSignatureError
  | DecodeError
  | InvalidAlgorithmError
  | JSONDecodeError
  | AttributeError
  | KeyError
  | IndexError
  | ValueError
  | TypeError
  | ImportError
  | OSError
  | DatabaseError

datatype exc = Exc exc_class string

datatype 'a result = Returns 'a | Raises exc

fun exc_class_of :: "exc \<Rightarrow> exc_class" where
  "exc_class_of (Exc c m) = c"

text \<open>\<open>str(e)\<close>.\<close>

fun str_exc :: "exc \<Rightarrow> string" where
  "str_exc (Exc c m) = m"

text \<open>
  \<open>jwt.ExpiredSignatureError\<close>, \<open>jwt.InvalidSignatureError\<close>, \<open>jwt.DecodeError\<close> and
  \<open>jwt.InvalidAlgorithmError\<close> are the subclasses of \<open>jwt.PyJWTError\<close> in the model.
\<close>

fun is_PyJWTError :: "exc_class \<Rightarrow> bool" where
  "is_PyJWTError ExpiredSignatureError = True"
| "is_PyJWTError InvalidSignatureError = True"
| "is_PyJWTError DecodeError = True"
| "is_PyJWTError InvalidAlgorithmError = True"
| "is_PyJWTError c = False"

text \<open>
  The values the handlers see: parsed JSON and the dictionaries \<open>JsonResponse\<close> has
  encoded.  A dictionary keeps its insertion order.  These are values \<open>JsonResponse\<close> can
  encode; a response that was built carries its data as such a value.
\<close>

datatype pyval =
    PNone
  | PBool bool
  | PInt int
  | PStr string
  | PList "pyval list"
  | PDict "(string \<times> pyval) list"

text \<open>
  What the database driver hands back for one column of a row: a value as above, or
  \<open>bytes\<close> (a binary column).  \<open>JsonResponse\<close> encodes its data when it is built, and its
  encoder refuses \<open>bytes\<close> with \<open>TypeError\<close>.
\<close>

datatype cell = Val pyval | Bytes string

fun encode_cell :: "cell \<Rightarrow> pyval result" where
  "encode_cell (Val v) = Returns v"
| "encode_cell (Bytes b) = Raises (Exc TypeError ''Object of type bytes is not JSON serializable'')"

text \<open>Encoding a dictionary whose values are cells, and a list of such dictionaries.\<close>

fun encode_cells :: "(string \<times> cell) list \<Rightarrow> (string \<times> pyval) list result" where
  "encode_cells [] = Returns []"
| "encode_cells ((k, c) # kcs) =
     (case encode_cell c of
        Raises e \<Rightarrow> Raises e
      | Returns v \<Rightarrow>
          (case encode_cells kcs of
             Raises e \<Rightarrow> Raises e
           | Returns kvs \<Rightarrow> Returns ((k, v) # kvs)))"

fun encode_records :: "(string \<times> cell) list list \<Rightarrow> pyval list result" where
  "encode_records [] = Returns []"
| "encode_records (d # ds) =
     (case encode_cells d of
        Raises e \<Rightarrow> Raises e
      | Returns kvs \<Rightarrow>
          (case encode_records ds of
             Raises e \<Rightarrow> Raises e
           | Returns vs \<Rightarrow> Returns (PDict kvs # vs)))"

text \<open>Python's truth value of an object, as \<open>if x\<close>, \<open>not x\<close> and \<open>x or y\<close> test it.\<close>

fun truthy :: "pyval \<Rightarrow> bool" where
  "truthy PNone = False"
| "truthy (PBool b) = b"
| "truthy (PInt i) = (i \<noteq> 0)"
| "truthy (PStr s) = (s \<noteq> [])"
| "truthy (PList xs) = (xs \<noteq> [])"
| "truthy (PDict kvs) = (kvs \<noteq> [])"

text \<open>
  \<open>str.isspace\<close> on the characters below 256: the ASCII white space, the four separators
  \<open>0x1C\<close> to \<open>0x1F\<close>, NEL and the no-break space.
\<close>

definition isspace :: "char \<Rightarrow> bool" where
  "isspace c \<longleftrightarrow>
     c \<in> set [CHR 0x09, CHR 0x0A, CHR 0x0B, CHR 0x0C, CHR 0x0D, CHR 0x1C, CHR 0x1D,
              CHR 0x1E, CHR 0x1F, CHR 0x20, CHR 0x85, CHR 0xA0]"

text \<open>\<open>s.strip()\<close>.\<close>

definition strip :: "string \<Rightarrow> string" where
  "strip s = rev (dropWhile isspace (rev (dropWhile isspace s)))"

text \<open>\<open>s.startswith(p)\<close>.\<close>

definition startswith :: "string \<Rightarrow> string \<Rightarrow> bool" where
  "startswith s p \<longleftrightarrow> take (length p) s = p"

text \<open>
  \<open>s.split(sep, 1)\<close> for a one-character separator: one element when \<open>sep\<close> does not occur,
  else the text before the first \<open>sep\<close> and the text after it.
\<close>

definition split1 :: "char \<Rightarrow> string \<Rightarrow> string list" where
  "split1 sep s =
     (if sep \<in> set s
      then [takeWhile (\<lambda>c. c \<noteq> sep) s, tl (dropWhile (\<lambda>c. c \<noteq> sep) s)]
      else [s])"

text \<open>\<open>xs[i]\<close> on a list or tuple; out of range raises \<open>IndexError\<close>.\<close>

definition index :: "'a list \<Rightarrow> nat \<Rightarrow> 'a result" where
  "index xs i = (if i < length xs then Returns (xs ! i) else Raises (Exc IndexError ''index out of range''))"

text \<open>\<open>needle in s\<close> on strings: \<open>needle\<close> occurs as a contiguous substring.\<close>

fun contains :: "string \<Rightarrow> string \<Rightarrow> bool" where
  "contains [] needle = (needle = [])"
| "contains (c # s) needle = (startswith (c # s) needle \<or> contains s needle)"


section \<open>SyncService.py: the launcher\<close>

subsection \<open>Environment overlay\<close>

type_synonym env = "string \<rightharpoonup> string"

text \<open>\<open>_strip_comment\<close> on a string: \<open>s.split("#", 1)[0].strip()\<close>.\<close>

definition strip_comment :: "string \<Rightarrow> string" where
  "strip_comment s = (case split1 CHR ''#'' s of [] \<Rightarrow> [] | x # rest \<Rightarrow> strip x)"

text \<open>
  \<open>os.environ[k] = v\<close>.  The process environment takes neither a NUL character in a name
  or a value nor the empty name: the assignment raises (\<open>ValueError\<close>; for the empty name
  it is \<open>OSError\<close> on a POSIX build) and leaves the environment as it was.
\<close>

definition environ_setitem :: "env \<Rightarrow> string \<Rightarrow> string \<Rightarrow> env result" where
  "environ_setitem e k v =
     (if CHR 0x00 \<in> set k \<or> CHR 0x00 \<in> set v then Raises (Exc ValueError ''embedded null byte'')
      else if k = [] then Raises (Exc ValueError ''illegal environment variable name'')
      else Returns (e(k \<mapsto> v)))"

text \<open>
  One pass of the loop body of \<open>load_env\<close> on the state \<open>(os.environ, loaded)\<close>.  The tuple
  assignment \<open>k, v = line.split("=", 1)\<close> raises \<open>ValueError\<close> unless the split has two
  parts.
\<close>

definition env_line :: "string \<Rightarrow> env \<times> env \<Rightarrow> (env \<times> env) result" where
  "env_line raw st =
     (let line = strip raw in
      if line = [] \<or> startswith line ''#'' \<or> CHR ''='' \<notin> set line then Returns st
      else (case split1 CHR ''='' line of
              [k, v] \<Rightarrow>
                (let k' = strip k; v' = strip_comment (strip v)
                 in case environ_setitem (fst st) k' v' of
                      Raises e \<Rightarrow> Raises e
                    | Returns os_environ \<Rightarrow> Returns (os_environ, (snd st)(k' \<mapsto> v')))
            | other \<Rightarrow> Raises (Exc ValueError ''not enough values to unpack'')))"

fun env_lines :: "string list \<Rightarrow> env \<times> env \<Rightarrow> (env \<times> env) result" where
  "env_lines [] st = Returns st"
| "env_lines (l # ls) st =
     (case env_line l st of Raises e \<Rightarrow> Raises e | Returns st' \<Rightarrow> env_lines ls st')"

text \<open>
  \<open>load_env\<close>: \<open>file\<close> is \<open>None\<close> when the path is not a file, else the lines of the file in
  order (each with or without its line terminator).  The result is the new process
  environment and the dictionary \<open>loaded\<close>.
\<close>

definition load_env :: "env \<Rightarrow> string list option \<Rightarrow> (env \<times> env) result" where
  "load_env os_environ file =
     (case file of
        None \<Rightarrow> Returns (os_environ, Map.empty)
      | Some ls \<Rightarrow> env_lines ls (os_environ, Map.empty))"

text \<open>
  The description of the overlay in the words of the specification: a line counts when,
  trimmed, it is non-empty, does not start with \<open>#\<close> and contains \<open>=\<close>; its key is the
  trimmed text before the first \<open>=\<close>, its value the trimmed text after it, cut at the first
  \<open>#\<close> and trimmed.
\<close>

definition overlay_line :: "string \<Rightarrow> bool" where
  "overlay_line raw \<longleftrightarrow>
     strip raw \<noteq> [] \<and> \<not> startswith (strip raw) ''#'' \<and> CHR ''='' \<in> set (strip raw)"

definition overlay_key :: "string \<Rightarrow> string" where
  "overlay_key raw = strip (takeWhile (\<lambda>c. c \<noteq> CHR ''='') (strip raw))"

definition overlay_value :: "string \<Rightarrow> string" where
  "overlay_value raw =
     strip (takeWhile (\<lambda>c. c \<noteq> CHR ''#'')
       (strip (tl (dropWhile (\<lambda>c. c \<noteq> CHR ''='') (strip raw)))))"

definition overlay_pairs :: "string list \<Rightarrow> (string \<times> string) list" where
  "overlay_pairs ls = map (\<lambda>l. (overlay_key l, overlay_value l)) (filter overlay_line ls)"

text \<open>A pair the process environment takes: a non-empty name, no NUL character.\<close>

definition settable :: "string \<Rightarrow> string \<Rightarrow> bool" where
  "settable k v \<longleftrightarrow> k \<noteq> [] \<and> CHR 0x00 \<notin> set k \<and> CHR 0x00 \<notin> set v"

subsection \<open>IP auto-pick\<close>

text \<open>
  What the sockets answer: the local address of the UDP probe towards \<open>8.8.8.8\<close> (\<open>None\<close> when
  the probe raises), the addresses \<open>getaddrinfo\<close> lists for the host name (\<open>None\<close> when it
  raises), and whether creating, binding and closing a TCP socket on \<open>(ip, port)\<close> goes
  through without an exception.
\<close>

record net =
  outbound_ip :: "string option"
  host_ips :: "string list option"
  can_bind :: "string \<Rightarrow> int \<Rightarrow> bool"

text \<open>The de-duplication loop of \<open>ipv4_candidates\<close>, on \<open>(seen, uniq)\<close>.\<close>

fun uniq_loop :: "string list \<Rightarrow> string set \<Rightarrow> string list \<Rightarrow> string list" where
  "uniq_loop [] seen uniq = uniq"
| "uniq_loop (ip # ips) seen uniq =
     (if ip \<notin> seen then uniq_loop ips (insert ip seen) (uniq @ [ip])
      else uniq_loop ips seen uniq)"

definition ipv4_candidates :: "net \<Rightarrow> string list" where
  "ipv4_candidates N =
     (let cands = (case outbound_ip N of Some ip \<Rightarrow> [ip] | None \<Rightarrow> []);
          cands = cands @ (case host_ips N of
                             Some ips \<Rightarrow> filter (\<lambda>ip. ip \<noteq> [] \<and> ip \<noteq> ''127.0.0.1'') ips
                           | None \<Rightarrow> [])
      in uniq_loop cands {} [])"

text \<open>The probing loop of \<open>select_bind_ip\<close>; a failed bind is swallowed and the loop goes on.\<close>

fun select_loop :: "net \<Rightarrow> int \<Rightarrow> string list \<Rightarrow> string list \<Rightarrow> string \<times> string list" where
  "select_loop N port [] tried = (''0.0.0.0'', tried @ [''0.0.0.0''])"
| "select_loop N port (ip # ips) tried =
     (if can_bind N ip port then (ip, tried @ [ip])
      else select_loop N port ips (tried @ [ip]))"

definition select_bind_ip :: "net \<Rightarrow> int \<Rightarrow> (string \<times> string list) result" where
  "select_bind_ip N port = Returns (select_loop N port (ipv4_candidates N) [])"

text \<open>
  De-duplication keeping the first occurrence of every element, as a specification of
  \<open>uniq_loop\<close>.
\<close>

fun first_seen :: "string list \<Rightarrow> string list" where
  "first_seen [] = []"
| "first_seen (x # xs) = x # first_seen (filter (\<lambda>y. y \<noteq> x) xs)"



section \<open>sync/views.py: the HTTP handlers\<close>

subsection \<open>Configuration read from the process environment\<close>

text \<open>\<open>os.getenv(k, d)\<close>: the default stands in only when the variable is not set.\<close>

definition getenv :: "env \<Rightarrow> string \<Rightarrow> string \<Rightarrow> string" where
  "getenv e k d = (case e k of None \<Rightarrow> d | Some v \<Rightarrow> v)"

definition PAIR_PASSWORD :: "env \<Rightarrow> string" where
  "PAIR_PASSWORD e = getenv e ''PAIR_PASSWORD'' ''IMC-MOBILE''"

text \<open>\<open>os.getenv("JWT_SECRET") or "dev-secret-change-me"\<close>: unset and empty both give the default.\<close>

definition JWT_SECRET :: "env \<Rightarrow> string" where
  "JWT_SECRET e =
     (case e ''JWT_SECRET'' of
        None \<Rightarrow> ''dev-secret-change-me''
      | Some v \<Rightarrow> if v \<noteq> [] then v else ''dev-secret-change-me'')"

definition JWT_ALGO :: "env \<Rightarrow> string" where
  "JWT_ALGO e = getenv e ''JWT_ALGO'' ''HS256''"

subsection \<open>Requests, responses and the collaborators\<close>

text \<open>
  The request body as \<open>json.loads\<close> reads it: no bytes at all, bytes that are not JSON, or
  the parsed value.
\<close>

datatype http_body = Empty | Malformed | Json pyval

text \<open>
  \<open>GET\<close> lists the query-string parameters in their order; \<open>userid\<close> is the attribute
  that \<open>jwt_required\<close> sets on the request (\<open>None\<close> while it is not set).
\<close>

record request =
  http_method :: string
  authorization :: "string option"
  GET :: "(string \<times> string) list"
  body :: http_body
  userid :: "pyval option"

datatype response =
    JsonResponse pyval nat
  | HttpResponseNotAllowed "string list"

text \<open>
  The parameterized statements the handlers send to the database gateway:
  \<^item> \<open>SelectUser id pass\<close>: \<open>SELECT id, pass FROM acc_users WHERE id = ? AND pass = ?\<close>;
  \<^item> \<open>SelectItems c\<close>: the eleven item columns of \<open>tb_item_master\<close> joined with
    \<open>dine_itemcategory\<close>, with \<open>WHERE i.item_code = ?\<close> when \<open>c\<close> is given;
  \<^item> \<open>SelectDineTables c\<close>: \<open>tableno, description, section\<close> of \<open>dine_tables\<close>, with
    \<open>WHERE tableno = ?\<close> when \<open>c\<close> is given;
  \<^item> \<open>SelectUserSettings c\<close>: \<open>uid, code\<close> of \<open>acc_userssettings\<close>, with \<open>WHERE uid = ?\<close>;
  \<^item> \<open>SelectDineCategories c\<close>: \<open>catagorycode, name\<close> of \<open>dine_catagory\<close>, with
    \<open>WHERE catagorycode = ?\<close>.
\<close>

datatype query =
    SelectUser string string
  | SelectItems "string option"
  | SelectDineTables "string option"
  | SelectUserSettings "string option"
  | SelectDineCategories "string option"

text \<open>
  What a handler runs against.  \<open>now\<close> is the UTC clock in seconds since the epoch.
  \<open>db q\<close> is the outcome of \<open>get_connection\<close>, \<open>cursor\<close>, \<open>execute\<close> and the fetch for the
  statement \<open>q\<close>: the rows (tuples of cells) in the order the database produced them, or
  the exception any of the four steps raised.  \<open>jwt_encode payload key alg\<close> and \<open>jwt_decode token key algs t\<close>
  are the two calls into the PyJWT library, the latter at clock \<open>t\<close>.
\<close>

record world =
  environ :: env
  now :: nat
  db :: "query \<Rightarrow> cell list list result"
  jwt_encode :: "(string \<times> pyval) list \<Rightarrow> string \<Rightarrow> string \<Rightarrow> string result"
  jwt_decode :: "string \<Rightarrow> string \<Rightarrow> string list \<Rightarrow> nat \<Rightarrow> (string \<times> pyval) list result"

text \<open>
  A handler's reply: the response it returns or the exception that leaves it, and the
  statements it sent to the gateway.
\<close>

type_synonym reply = "response result \<times> query list"

subsection \<open>Helpers\<close>

text \<open>\<open>json.loads(request.body or b"{}")\<close>.\<close>

fun json_loads_body :: "http_body \<Rightarrow> pyval result" where
  "json_loads_body Empty = Returns (PDict [])"
| "json_loads_body Malformed = Raises (Exc JSONDecodeError ''Expecting value'')"
| "json_loads_body (Json v) = Returns v"

text \<open>\<open>data.get(k)\<close>: only a dictionary has \<open>get\<close>.\<close>

fun py_get :: "pyval \<Rightarrow> string \<Rightarrow> pyval result" where
  "py_get (PDict kvs) k = Returns (case map_of kvs k of None \<Rightarrow> PNone | Some v \<Rightarrow> v)"
| "py_get v k = Raises (Exc AttributeError ''object has no attribute get'')"

text \<open>\<open>(x or "").strip()\<close>: only a string has \<open>strip\<close>.\<close>

definition or_empty_strip :: "pyval \<Rightarrow> string result" where
  "or_empty_strip x =
     (case (if truthy x then x else PStr []) of
        PStr s \<Rightarrow> Returns (strip s)
      | other \<Rightarrow> Raises (Exc AttributeError ''object has no attribute strip''))"

text \<open>\<open>request.GET.get(k)\<close>: the last value given for \<open>k\<close>, or \<open>None\<close>.\<close>

definition qd_get :: "(string \<times> string) list \<Rightarrow> string \<Rightarrow> string option" where
  "qd_get qs k = map_of (rev qs) k"

text \<open>\<open>_extract_token\<close>.\<close>

definition extract_token :: "request \<Rightarrow> string option result" where
  "extract_token req =
     (let hdr = (case authorization req of None \<Rightarrow> [] | Some h \<Rightarrow> h) in
      if \<not> startswith hdr ''Bearer '' then Returns None
      else (case index (split1 CHR '' '' hdr) 1 of
              Raises e \<Rightarrow> Raises e
            | Returns t \<Rightarrow> Returns (Some t)))"

text \<open>\<open>timedelta(days=n)\<close> in seconds.\<close>

definition days :: "nat \<Rightarrow> nat" where
  "days n = n * 86400"

subsection \<open>Decorators\<close>

text \<open>
  \<open>jwt_required\<close>.  Its \<open>try\<close> block (\<open>decode_sub\<close>) decodes the token and reads
  \<open>payload["sub"]\<close>; its two handlers catch \<open>jwt.ExpiredSignatureError\<close> and then
  \<open>jwt.PyJWTError\<close>; any other exception leaves the wrapper.
\<close>

definition decode_sub :: "world \<Rightarrow> string \<Rightarrow> pyval result" where
  "decode_sub W token =
     (case jwt_decode W token (JWT_SECRET (environ W)) [JWT_ALGO (environ W)] (now W) of
        Raises e \<Rightarrow> Raises e
      | Returns payload \<Rightarrow>
          (case map_of payload ''sub'' of
             None \<Rightarrow> Raises (Exc KeyError (CHR 0x27 # ''sub'' @ [CHR 0x27]))
           | Some sub \<Rightarrow> Returns sub))"

definition token_missing :: reply where
  "token_missing = (Returns (JsonResponse (PDict [(''detail'', PStr ''Token missing'')]) 401), [])"

definition jwt_required :: "world \<Rightarrow> (request \<Rightarrow> reply) \<Rightarrow> request \<Rightarrow> reply" where
  "jwt_required W view_func req =
     (case extract_token req of
        Raises e \<Rightarrow> (Raises e, [])
      | Returns None \<Rightarrow> token_missing
      | Returns (Some token) \<Rightarrow>
          if token = [] then token_missing
          else
            (case decode_sub W token of
               Raises e \<Rightarrow>
                 if exc_class_of e = ExpiredSignatureError
                 then (Returns (JsonResponse (PDict [(''detail'', PStr ''Token expired'')]) 401), [])
                 else if is_PyJWTError (exc_class_of e)
                 then (Returns (JsonResponse (PDict [(''detail'', PStr ''Invalid token'')]) 401), [])
                 else (Raises e, [])
             | Returns sub \<Rightarrow> view_func (req\<lparr>userid := Some sub\<rparr>)))"

text \<open>\<open>require_http_methods\<close>: a method outside the list is answered with status 405.\<close>

definition require_http_methods :: "string list \<Rightarrow> (request \<Rightarrow> reply) \<Rightarrow> request \<Rightarrow> reply" where
  "require_http_methods ms view_func req =
     (if http_method req \<notin> set ms then (Returns (HttpResponseNotAllowed ms), [])
      else view_func req)"

subsection \<open>Pairing\<close>

text \<open>
  What \<open>pair_check\<close> finds on the machine: whether \<open>SyncService.exe\<close> lies beside the
  program, the names of the running processes (\<open>None\<close> for a process without a name), and
  what \<open>subprocess.Popen\<close> does.
\<close>

record host =
  exe_exists :: bool
  process_names :: "string option list"
  popen :: "unit result"

definition pair_check_view :: "world \<Rightarrow> host \<Rightarrow> request \<Rightarrow> reply" where
  "pair_check_view W H req =
     (case json_loads_body (body req) of
        Raises e \<Rightarrow> (Returns (JsonResponse (PDict [(''detail'', PStr ''Invalid JSON'')]) 400), [])
      | Returns data \<Rightarrow>
          (case py_get data ''password'' of
             Raises e \<Rightarrow> (Raises e, [])
           | Returns password \<Rightarrow>
               if password \<noteq> PStr (PAIR_PASSWORD (environ W))
               then (Returns (JsonResponse (PDict [(''detail'', PStr ''Invalid password'')]) 401), [])
               else if \<not> exe_exists H
               then (Returns (JsonResponse (PDict [(''detail'', PStr ''SyncService.exe not found'')]) 404), [])
               else if list_ex (\<lambda>n. case n of None \<Rightarrow> False
                                       | Some name \<Rightarrow> name \<noteq> [] \<and> contains name ''SyncService.exe'')
                         (process_names H)
               then (Returns (JsonResponse (PDict [(''status'', PStr ''success''),
                        (''message'', PStr ''SyncService already running''),
                        (''pair_successful'', PBool True)]) 200), [])
               else
                 (case popen H of
                    Returns u \<Rightarrow>
                      (Returns (JsonResponse (PDict [(''status'', PStr ''success''),
                         (''message'', PStr ''SyncService launched successfully''),
                         (''pair_successful'', PBool True)]) 200), [])
                  | Raises e \<Rightarrow>
                      (Returns (JsonResponse (PDict [(''detail'',
                         PStr (''Failed to start sync service: '' @ str_exc e))]) 500), []))))"

definition pair_check :: "world \<Rightarrow> host \<Rightarrow> request \<Rightarrow> reply" where
  "pair_check W H = require_http_methods [''POST''] (pair_check_view W H)"

subsection \<open>Login and token check\<close>

text \<open>The first \<open>try\<close> block of \<open>login\<close>: the two trimmed fields.\<close>

definition login_fields :: "request \<Rightarrow> (string \<times> string) result" where
  "login_fields req =
     (case json_loads_body (body req) of
        Raises e \<Rightarrow> Raises e
      | Returns data \<Rightarrow>
          (case py_get data ''userid'' of
             Raises e \<Rightarrow> Raises e
           | Returns u \<Rightarrow>
               (case or_empty_strip u of
                  Raises e \<Rightarrow> Raises e
                | Returns userid' \<Rightarrow>
                    (case py_get data ''password'' of
                       Raises e \<Rightarrow> Raises e
                     | Returns p \<Rightarrow>
                         (case or_empty_strip p of
                            Raises e \<Rightarrow> Raises e
                          | Returns password' \<Rightarrow> Returns (userid', password'))))))"

text \<open>
  \<open>cur.fetchone()\<close>: the first row, or \<open>None\<close>.  In \<open>login_view\<close> below, the last
  \<open>JsonResponse\<close> is built outside every \<open>try\<close>: when the encoder refuses the cell
  \<open>row[0]\<close>, its \<open>TypeError\<close> leaves the handler.
\<close>

fun fetchone :: "cell list list \<Rightarrow> cell list option" where
  "fetchone [] = None"
| "fetchone (row # rows) = Some row"

definition login_view :: "world \<Rightarrow> request \<Rightarrow> reply" where
  "login_view W req =
     (case login_fields req of
        Raises e \<Rightarrow> (Returns (JsonResponse (PDict [(''detail'', PStr ''Invalid JSON'')]) 400), [])
      | Returns (userid', password') \<Rightarrow>
          if userid' = [] \<or> password' = []
          then (Returns (JsonResponse (PDict [(''detail'', PStr ''userid & password required'')]) 400), [])
          else
            (case db W (SelectUser userid' password') of
               Raises dbx \<Rightarrow>
                 (Returns (JsonResponse (PDict [(''detail'', PStr (''DB error: '' @ str_exc dbx))]) 500),
                  [SelectUser userid' password'])
             | Returns rows \<Rightarrow>
                 (case fetchone rows of
                    None \<Rightarrow>
                      (Returns (JsonResponse (PDict [(''detail'', PStr ''Invalid credentials'')]) 401),
                       [SelectUser userid' password'])
                  | Some row \<Rightarrow>
                      if row = []
                      then (Returns (JsonResponse (PDict [(''detail'', PStr ''Invalid credentials'')]) 401),
                            [SelectUser userid' password'])
                      else
                        (case jwt_encode W
                                [(''sub'', PStr userid'), (''exp'', PInt (int (now W + days 7)))]
                                (JWT_SECRET (environ W)) (JWT_ALGO (environ W)) of
                           Raises e \<Rightarrow> (Raises e, [SelectUser userid' password'])
                         | Returns token \<Rightarrow>
                             (case encode_cell (row ! 0) of
                                Raises e \<Rightarrow> (Raises e, [SelectUser userid' password'])
                              | Returns user_id \<Rightarrow>
                                  (Returns (JsonResponse (PDict [(''status'', PStr ''success''),
                                     (''message'', PStr ''Login successful''),
                                     (''user_id'', user_id),
                                     (''token'', PStr token)]) 200),
                                   [SelectUser userid' password']))))))"

definition login :: "world \<Rightarrow> request \<Rightarrow> reply" where
  "login W = require_http_methods [''POST''] (login_view W)"

definition verify_token_view :: "request \<Rightarrow> reply" where
  "verify_token_view req =
     (case userid req of
        None \<Rightarrow> (Raises (Exc AttributeError ''object has no attribute userid''), [])
      | Some u \<Rightarrow>
          (Returns (JsonResponse (PDict [(''status'', PStr ''success''), (''userid'', u)]) 200), []))"

definition verify_token :: "world \<Rightarrow> request \<Rightarrow> reply" where
  "verify_token W = jwt_required W (require_http_methods [''GET''] verify_token_view)"

subsection \<open>Query endpoints\<close>

text \<open>The \<open>except Exception as e\<close> branch the four query handlers share.\<close>

definition error_response :: "exc \<Rightarrow> response" where
  "error_response e =
     JsonResponse (PDict [(''status'', PStr ''error''), (''detail'', PStr (str_exc e))]) 500"

text \<open>
  The loop \<open>for r in rows: data.append({...})\<close>; \<open>shape\<close> builds the dictionary of one row
  and raises \<open>IndexError\<close> on a row that is too short.
\<close>

fun shape_rows ::
  "(cell list \<Rightarrow> (string \<times> cell) list result) \<Rightarrow> cell list list \<Rightarrow>
   (string \<times> cell) list list \<Rightarrow> (string \<times> cell) list list result" where
  "shape_rows shape [] data = Returns data"
| "shape_rows shape (r # rows) data =
     (case shape r of
        Raises e \<Rightarrow> Raises e
      | Returns d \<Rightarrow> shape_rows shape rows (data @ [d]))"

text \<open>
  The body the four handlers share after they have chosen their statement: run it, shape
  the rows, build the answer.  All of it, building the \<open>JsonResponse\<close> of the success
  included, stands in the \<open>try\<close> block: every exception, the encoder's \<open>TypeError\<close> too,
  becomes the error response.
\<close>

definition select_rows ::
  "world \<Rightarrow> query \<Rightarrow> (cell list \<Rightarrow> (string \<times> cell) list result) \<Rightarrow> string \<Rightarrow> reply" where
  "select_rows W q shape coll =
     (case db W q of
        Raises e \<Rightarrow> (Returns (error_response e), [q])
      | Returns rows \<Rightarrow>
          (case shape_rows shape rows [] of
             Raises e \<Rightarrow> (Returns (error_response e), [q])
           | Returns data \<Rightarrow>
               (case encode_records data of
                  Raises e \<Rightarrow> (Returns (error_response e), [q])
                | Returns records \<Rightarrow>
                    (Returns (JsonResponse (PDict [(''status'', PStr ''success''),
                       (''count'', PInt (int (length data))),
                       (coll, PList records)]) 200), [q]))))"

text \<open>\<open>if item_code:\<close> and its three siblings: the filter counts when given and non-empty.\<close>

definition given :: "string option \<Rightarrow> string option" where
  "given v = (case v of None \<Rightarrow> None | Some c \<Rightarrow> if c \<noteq> [] then Some c else None)"

definition item_record :: "cell list \<Rightarrow> (string \<times> cell) list result" where
  "item_record r =
     (if length r < 11 then Raises (Exc IndexError ''tuple index out of range'')
      else Returns [(''item_code'', r ! 0), (''item_name'', r ! 1), (''rate'', r ! 2),
             (''rate1'', r ! 3), (''rate2'', r ! 4), (''kitchen'', r ! 5),
             (''activity'', r ! 6), (''image'', r ! 7), (''category'', r ! 8),
             (''taxper'', r ! 9), (''longname'', r ! 10)])"

definition get_items_view :: "world \<Rightarrow> request \<Rightarrow> reply" where
  "get_items_view W req =
     (let item_code = qd_get (GET req) ''item_code''
      in select_rows W (SelectItems (given item_code)) item_record ''items'')"

definition get_items :: "world \<Rightarrow> request \<Rightarrow> reply" where
  "get_items W = jwt_required W (require_http_methods [''GET''] (get_items_view W))"

definition table_record :: "cell list \<Rightarrow> (string \<times> cell) list result" where
  "table_record r =
     (if length r < 3 then Raises (Exc IndexError ''tuple index out of range'')
      else Returns [(''tableno'', r ! 0), (''description'', r ! 1), (''section'', r ! 2)])"

definition get_dine_tables_view :: "world \<Rightarrow> request \<Rightarrow> reply" where
  "get_dine_tables_view W req =
     (let tableno = qd_get (GET req) ''tableno''
      in select_rows W (SelectDineTables (given tableno)) table_record ''tables'')"

definition get_dine_tables :: "world \<Rightarrow> request \<Rightarrow> reply" where
  "get_dine_tables W = jwt_required W (require_http_methods [''GET''] (get_dine_tables_view W))"

definition setting_record :: "cell list \<Rightarrow> (string \<times> cell) list result" where
  "setting_record r =
     (if length r < 2 then Raises (Exc IndexError ''tuple index out of range'')
      else Returns [(''uid'', r ! 0), (''code'', r ! 1)])"

definition get_user_settings_view :: "world \<Rightarrow> request \<Rightarrow> reply" where
  "get_user_settings_view W req =
     (let uid = qd_get (GET req) ''uid''
      in select_rows W (SelectUserSettings (given uid)) setting_record ''settings'')"

definition get_user_settings :: "world \<Rightarrow> request \<Rightarrow> reply" where
  "get_user_settings W = jwt_required W (require_http_methods [''GET''] (get_user_settings_view W))"

definition category_record :: "cell list \<Rightarrow> (string \<times> cell) list result" where
  "category_record r =
     (if length r < 2 then Raises (Exc IndexError ''tuple index out of range'')
      else Returns [(''catagorycode'', r ! 0), (''name'', r ! 1)])"

definition get_dine_categories_view :: "world \<Rightarrow> request \<Rightarrow> reply" where
  "get_dine_categories_view W req =
     (let catagorycode = qd_get (GET req) ''catagorycode''
      in select_rows W (SelectDineCategories (given catagorycode)) category_record ''categories'')"

definition get_dine_categories :: "world \<Rightarrow> request \<Rightarrow> reply" where
  "get_dine_categories W =
     jwt_required W (require_http_methods [''GET''] (get_dine_categories_view W))"

subsection \<open>The four query endpoints side by side\<close>

text \<open>
  The routes \<open>items/\<close>, \<open>dine-tables/\<close>, \<open>user-settings/\<close> and \<open>dine-categories/\<close> of
  \<open>urls.py\<close>, with what tells them apart: the handler, its undecorated body, the
  query-string key of the filter, the statement, the key of the collection in the answer
  and the names the columns get, in the order of the \<open>SELECT\<close> list.
\<close>

datatype endpoint = Items | DineTables | UserSettings | DineCategories

fun handler :: "endpoint \<Rightarrow> world \<Rightarrow> request \<Rightarrow> reply" where
  "handler Items = get_items"
| "handler DineTables = get_dine_tables"
| "handler UserSettings = get_user_settings"
| "handler DineCategories = get_dine_categories"

fun handler_body :: "endpoint \<Rightarrow> world \<Rightarrow> request \<Rightarrow> reply" where
  "handler_body Items = get_items_view"
| "handler_body DineTables = get_dine_tables_view"
| "handler_body UserSettings = get_user_settings_view"
| "handler_body DineCategories = get_dine_categories_view"

fun filter_param :: "endpoint \<Rightarrow> string" where
  "filter_param Items = ''item_code''"
| "filter_param DineTables = ''tableno''"
| "filter_param UserSettings = ''uid''"
| "filter_param DineCategories = ''catagorycode''"

fun statement :: "endpoint \<Rightarrow> string option \<Rightarrow> query" where
  "statement Items = SelectItems"
| "statement DineTables = SelectDineTables"
| "statement UserSettings = SelectUserSettings"
| "statement DineCategories = SelectDineCategories"

fun collection :: "endpoint \<Rightarrow> string" where
  "collection Items = ''items''"
| "collection DineTables = ''tables''"
| "collection UserSettings = ''settings''"
| "collection DineCategories = ''categories''"

fun columns :: "endpoint \<Rightarrow> string list" where
  "columns Items = [''item_code'', ''item_name'', ''rate'', ''rate1'', ''rate2'', ''kitchen'',
                    ''activity'', ''image'', ''category'', ''taxper'', ''longname'']"
| "columns DineTables = [''tableno'', ''description'', ''section'']"
| "columns UserSettings = [''uid'', ''code'']"
| "columns DineCategories = [''catagorycode'', ''name'']"

text \<open>
  The named record of a row of values: the column names paired with the values, position
  by position.
\<close>

definition named_record :: "endpoint \<Rightarrow> pyval list \<Rightarrow> pyval" where
  "named_record ep r = PDict (zip (columns ep) r)"

text \<open>
  A request carries a valid token for subject \<open>sub\<close>: its \<open>Authorization\<close> header is
  \<open>Bearer\<close>, one space and a non-empty token which the library, with the configured
  secret and algorithm at the current clock, decodes to a payload whose \<open>sub\<close> is \<open>sub\<close>.
\<close>

definition valid_token :: "world \<Rightarrow> request \<Rightarrow> pyval \<Rightarrow> bool" where
  "valid_token W req sub \<longleftrightarrow>
     (\<exists>token payload.
        authorization req = Some (''Bearer '' @ token) \<and> token \<noteq> [] \<and>
        jwt_decode W token (JWT_SECRET (environ W)) [JWT_ALGO (environ W)] (now W) = Returns payload \<and>
        map_of payload ''sub'' = Some sub)"

text \<open>
  The JSON object \<open>d\<close> submits the text \<open>s\<close> under the key \<open>k\<close>; a key that is absent or
  \<open>null\<close> submits the empty text.
\<close>

definition text_field :: "(string \<times> pyval) list \<Rightarrow> string \<Rightarrow> string \<Rightarrow> bool" where
  "text_field d k s \<longleftrightarrow>
     map_of d k = Some (PStr s) \<or> (s = [] \<and> (map_of d k = None \<or> map_of d k = Some PNone))"

subsection \<open>The contract of the token library\<close>


text \<open>
  A small codec with the interface of the library, to run the handlers on concrete
  requests: a token is the expiry in decimal, a dot, the key, and, when the payload has a
  subject, a dot and the subject.  Decoding checks the shape, then the key, then the expiry.
\<close>

function dec_digits :: "nat \<Rightarrow> string" where
  "dec_digits n =
     (if n < 10 then [char_of (48 + n)]
      else dec_digits (n div 10) @ [char_of (48 + n mod 10)])"
  by pat_completeness auto
termination
  by (relation "measure id") auto

declare dec_digits.simps [simp del]

definition is_digit :: "char \<Rightarrow> bool" where
  "is_digit c \<longleftrightarrow> 48 \<le> (of_char c :: nat) \<and> (of_char c :: nat) < 58"

definition parse_nat :: "string \<Rightarrow> nat" where
  "parse_nat s = foldl (\<lambda>a c. 10 * a + (of_char c - 48)) 0 s"

definition ref_encode :: "(string \<times> pyval) list \<Rightarrow> string \<Rightarrow> string \<Rightarrow> string result" where
  "ref_encode payload key alg =
     (case map_of payload ''exp'' of
        Some (PInt e) \<Rightarrow>
          Returns (dec_digits (nat e) @ ''.'' @ key @
                   (case map_of payload ''sub'' of Some (PStr s) \<Rightarrow> ''.'' @ s | other \<Rightarrow> []))
      | other \<Rightarrow> Raises (Exc TypeError ''Expiration Time claim (exp) must be an integer''))"

definition ref_decode ::
  "string \<Rightarrow> string \<Rightarrow> string list \<Rightarrow> nat \<Rightarrow> (string \<times> pyval) list result" where
  "ref_decode token key algs t =
     (let d = takeWhile (\<lambda>c. c \<noteq> CHR ''.'') token;
          signed = drop (length d + 1) token;
          rest = drop (length key) signed
      in if d = [] \<or> \<not> list_all is_digit d \<or> CHR ''.'' \<notin> set token
         then Raises (Exc DecodeError ''Not enough segments'')
         else if \<not> startswith signed key \<or> (rest \<noteq> [] \<and> hd rest \<noteq> CHR ''.'')
         then Raises (Exc InvalidSignatureError ''Signature verification failed'')
         else if parse_nat d \<le> t
         then Raises (Exc ExpiredSignatureError ''Signature has expired'')
         else if rest = [] then Returns [(''exp'', PInt (int (parse_nat d)))]
         else Returns [(''sub'', PStr (tl rest)), (''exp'', PInt (int (parse_nat d)))])"

text \<open>A world for concrete runs: the given environment, clock and database, and the codec above.\<close>

definition ref_world :: "env \<Rightarrow> nat \<Rightarrow> (query \<Rightarrow> cell list list result) \<Rightarrow> world" where
  "ref_world e t d =
     \<lparr>environ = e, now = t, db = d, jwt_encode = ref_encode, jwt_decode = ref_decode\<rparr>"



subsection \<open>A worked installation\<close>

text \<open>
  A concrete installation for worked examples: no variable set in the environment, the
  clock at 1000, one user and two dine tables in the database; the same with a database
  that cannot be reached; a host on which the service executable exists and is not running.
\<close>

definition demo_tables :: "pyval list list" where
  "demo_tables = [[PStr ''T01'', PStr ''Window'', PStr ''A''], [PStr ''T02'', PStr ''Bar'', PStr ''B'']]"

fun demo_db :: "query \<Rightarrow> cell list list result" where
  "demo_db (SelectUser u p) =
     Returns (map (map Val) (filter (\<lambda>r. r = [PStr u, PStr p]) [[PStr ''alice'', PStr ''wonder'']]))"
| "demo_db (SelectDineTables None) = Returns (map (map Val) demo_tables)"
| "demo_db (SelectDineTables (Some c)) =
     Returns (map (map Val) (filter (\<lambda>r. take 1 r = [PStr c]) demo_tables))"
| "demo_db q = Returns []"

text \<open>
  A database with binary columns: the user id and the image of the one item come back
  as \<open>bytes\<close>.
\<close>

definition blob_item :: "cell list" where
  "blob_item = [Val (PStr ''I01''), Val (PStr ''Tea''), Val (PInt 10), Val (PInt 10), Val (PInt 10),
                Val (PStr ''K1''), Val (PStr ''Y''), Bytes ''GIF89a'', Val (PStr ''Drinks''),
                Val (PInt 5), Val (PStr ''Tea'')]"

fun blob_db :: "query \<Rightarrow> cell list list result" where
  "blob_db (SelectUser u p) = Returns [[Bytes u, Val (PStr p)]]"
| "blob_db (SelectItems c) = Returns [blob_item]"
| "blob_db q = Returns []"

definition blob_world :: world where
  "blob_world = ref_world Map.empty 1000 blob_db"

definition down_db :: "query \<Rightarrow> cell list list result" where
  "down_db q = Raises (Exc DatabaseError ''Database server not found'')"

definition demo_world :: world where
  "demo_world = ref_world Map.empty 1000 demo_db"

definition down_world :: world where
  "down_world = ref_world Map.empty 1000 down_db"

definition demo_host :: host where
  "demo_host = \<lparr>exe_exists = True, process_names = [Some ''explorer.exe'', None], popen = Returns ()\<rparr>"

definition demo_get :: request where
  "demo_get = \<lparr>http_method = ''GET'',
                authorization = Some ''Bearer 605800.dev-secret-change-me.alice'',
                GET = [], body = Empty, userid = None\<rparr>"

definition demo_post :: "pyval \<Rightarrow> request" where
  "demo_post v = \<lparr>http_method = ''POST'', authorization = None, GET = [], body = Json v,
                   userid = None\<rparr>"


section \<open>Properties of the launcher\<close>

lemma strip_comment_eq: "strip_comment s = strip (takeWhile (\<lambda>c. c \<noteq> CHR ''#'') s)"
proof (cases "CHR ''#'' \<in> set s")
  case True
  then show ?thesis by (simp add: strip_comment_def split1_def)
next
  case False
  then have tw: "takeWhile (\<lambda>c. c \<noteq> CHR ''#'') s = s"
    by (intro takeWhile_eq_all_conv[THEN iffD2]) auto
  show ?thesis using False by (simp add: strip_comment_def split1_def tw)
qed

lemma environ_setitem_refused: "\<not> settable k v \<Longrightarrow> \<exists>x. environ_setitem e k v = Raises x"
  by (auto simp: environ_setitem_def settable_def)

lemma env_line_eq:
  "env_line raw st =
     (if overlay_line raw
      then (case environ_setitem (fst st) (overlay_key raw) (overlay_value raw) of
              Raises e \<Rightarrow> Raises e
            | Returns os_environ \<Rightarrow>
                Returns (os_environ, (snd st)(overlay_key raw \<mapsto> overlay_value raw)))
      else Returns st)"
  by (simp add: env_line_def overlay_line_def overlay_key_def overlay_value_def
      split1_def strip_comment_eq Let_def split: result.splits)

lemma env_line_settable:
  "overlay_line raw \<Longrightarrow> settable (overlay_key raw) (overlay_value raw) \<Longrightarrow>
   env_line raw (e, l) =
     Returns (e(overlay_key raw \<mapsto> overlay_value raw), l(overlay_key raw \<mapsto> overlay_value raw))"
  by (simp add: env_line_eq environ_setitem_def settable_def)

lemma env_line_other: "\<not> overlay_line raw \<Longrightarrow> env_line raw st = Returns st"
  by (simp add: env_line_eq)

lemma env_line_refused:
  "overlay_line raw \<Longrightarrow> \<not> settable (overlay_key raw) (overlay_value raw) \<Longrightarrow>
   \<exists>x. env_line raw st = Raises x"
  using environ_setitem_refused[of "overlay_key raw" "overlay_value raw" "fst st"]
  by (auto simp: env_line_eq)

lemma map_add_upd_left: "m(k \<mapsto> v) ++ map_of (rev ps) = m ++ map_of (rev ((k, v) # ps))"
  by (rule ext) (simp add: map_add_def split: option.splits)

lemma env_lines_eq:
  assumes "\<forall>a\<in>set ls. overlay_line a \<longrightarrow> settable (overlay_key a) (overlay_value a)"
  shows "env_lines ls (e, l) =
     Returns (e ++ map_of (rev (overlay_pairs ls)), l ++ map_of (rev (overlay_pairs ls)))"
  using assms
proof (induction ls arbitrary: e l)
  case Nil
  then show ?case by (simp add: overlay_pairs_def)
next
  case (Cons a ls)
  have IH: "env_lines ls (e', l') =
     Returns (e' ++ map_of (rev (overlay_pairs ls)), l' ++ map_of (rev (overlay_pairs ls)))" for e' l'
    using Cons by simp
  show ?case
  proof (cases "overlay_line a")
    case True
    then have ok: "settable (overlay_key a) (overlay_value a)"
      using Cons.prems by simp
    have step: "env_lines (a # ls) (e, l) =
        env_lines ls (e(overlay_key a \<mapsto> overlay_value a), l(overlay_key a \<mapsto> overlay_value a))"
      by (simp add: env_line_settable[OF True ok])
    have pairs: "overlay_pairs (a # ls) = (overlay_key a, overlay_value a) # overlay_pairs ls"
      using True by (simp add: overlay_pairs_def)
    show ?thesis
      unfolding step IH pairs map_add_upd_left ..
  next
    case False
    then show ?thesis using IH[of e l] by (simp add: env_line_other overlay_pairs_def)
  qed
qed

lemma env_lines_refused:
  assumes "\<exists>a\<in>set ls. overlay_line a \<and> \<not> settable (overlay_key a) (overlay_value a)"
  shows "\<exists>x. env_lines ls st = Raises x"
  using assms
proof (induction ls arbitrary: st)
  case Nil
  then show ?case by simp
next
  case (Cons a ls)
  show ?case
  proof (cases "env_line a st")
    case (Raises x)
    then show ?thesis by simp
  next
    case (Returns st')
    then have "\<not> (overlay_line a \<and> \<not> settable (overlay_key a) (overlay_value a))"
      using env_line_refused[of a st] by auto
    then have "\<exists>a\<in>set ls. overlay_line a \<and> \<not> settable (overlay_key a) (overlay_value a)"
      using Cons.prems by auto
    then show ?thesis using Cons.IH[of st'] Returns by simp
  qed
qed

lemma load_env_refused:
  "\<exists>a\<in>set ls. overlay_line a \<and> \<not> settable (overlay_key a) (overlay_value a) \<Longrightarrow>
   \<exists>x. load_env e0 (Some ls) = Raises x"
  by (simp add: load_env_def env_lines_refused)

lemma uniq_loop_eq: "uniq_loop cs seen acc = acc @ first_seen (filter (\<lambda>c. c \<notin> seen) cs)"
proof (induction cs arbitrary: seen acc)
  case Nil
  then show ?case by simp
next
  case (Cons c cs)
  have "filter (\<lambda>y. y \<noteq> c) (filter (\<lambda>c. c \<notin> seen) cs) = filter (\<lambda>x. x \<notin> insert c seen) cs"
    by (induction cs) auto
  then show ?case using Cons.IH by simp
qed

lemma set_first_seen: "set (first_seen xs) = set xs"
proof (induction xs rule: first_seen.induct)
  case 1
  then show ?case by simp
next
  case (2 x xs)
  then show ?case by auto
qed

lemma distinct_first_seen: "distinct (first_seen xs)"
proof (induction xs rule: first_seen.induct)
  case 1
  then show ?case by simp
next
  case (2 x xs)
  then show ?case by (simp add: set_first_seen)
qed

lemma select_loop_eq:
  "select_loop N port cs tried =
     (case find (\<lambda>c. can_bind N c port) cs of
        Some c \<Rightarrow> (c, tried @ takeWhile (\<lambda>c. \<not> can_bind N c port) cs @ [c])
      | None \<Rightarrow> (''0.0.0.0'', tried @ cs @ [''0.0.0.0'']))"
  by (induction cs arbitrary: tried) (auto split: option.splits)


lemma strip_plain [simp]:
  "strip ''DB_DSN=testdsn'' = ''DB_DSN=testdsn''" "strip ''DB_DSN'' = ''DB_DSN''"
  "strip ''testdsn'' = ''testdsn''"
  by (simp_all add: strip_def isspace_def)

lemma load_env_example:
  "load_env e0 (Some [''DB_DSN=testdsn'']) =
     Returns (e0(''DB_DSN'' \<mapsto> ''testdsn''), [''DB_DSN'' \<mapsto> ''testdsn''])"
  by (simp add: load_env_def env_line_def startswith_def split1_def
      strip_comment_def environ_setitem_def Let_def)

text \<open>
  Claim C8, as stated, fails: the line \<open>=x\<close> is non-empty, does not start with \<open>#\<close> and
  contains \<open>=\<close>, but its key is empty, the process environment refuses the pair, and
  \<open>load_env\<close> raises instead of returning a loaded set.
\<close>

theorem load_env_empty_key_counterexample:
  "overlay_line ''=x'' \<and> overlay_key ''=x'' = [] \<and>
   load_env Map.empty (Some [''=x'']) =
     Raises (Exc ValueError ''illegal environment variable name'')"
  by (simp add: overlay_line_def overlay_key_def load_env_def env_line_def strip_def isspace_def
      startswith_def split1_def strip_comment_def environ_setitem_def Let_def)

text \<open>
  Claim C8, amended.  Take a file each of whose overlay lines (the lines that, trimmed, are
  non-empty, do not start with \<open>#\<close> and contain \<open>=\<close>) has a pair the process environment
  takes: a non-empty key and no NUL character.  Then \<open>load_env\<close> returns, and it acts on
  exactly the overlay lines: each is split at its first \<open>=\<close>, key and value are trimmed,
  the value is cut at its first \<open>#\<close>, and the pair is written both into the process
  environment and into the returned dictionary, a later line winning over an earlier one
  with the same key; every other line changes neither.  A missing file changes nothing,
  and the line \<open>DB_DSN=testdsn\<close> sets \<open>DB_DSN\<close> to exactly \<open>testdsn\<close>.  (A file with an
  overlay line whose pair the environment refuses makes \<open>load_env\<close> raise:
  \<open>load_env_refused\<close>.)
\<close>

theorem load_env_overlay:
  assumes "\<forall>a\<in>set ls. overlay_line a \<longrightarrow> settable (overlay_key a) (overlay_value a)"
  shows "load_env e0 (Some ls) =
       Returns (e0 ++ map_of (rev (overlay_pairs ls)), map_of (rev (overlay_pairs ls)))
   \<and> load_env e0 None = Returns (e0, Map.empty)
   \<and> load_env e0 (Some [''DB_DSN=testdsn'']) =
       Returns (e0(''DB_DSN'' \<mapsto> ''testdsn''), [''DB_DSN'' \<mapsto> ''testdsn''])"
proof -
  have "load_env e0 (Some ls) =
       Returns (e0 ++ map_of (rev (overlay_pairs ls)), map_of (rev (overlay_pairs ls)))"
    using env_lines_eq[OF assms, of e0 Map.empty] by (simp add: load_env_def)
  moreover have "load_env e0 None = Returns (e0, Map.empty)"
    by (simp add: load_env_def)
  ultimately show ?thesis
    using load_env_example[of e0] by simp
qed

text \<open>
  A file with a comment, a blank line, a line without \<open>=\<close>, a value with an inline comment
  and a key given twice, loaded over an environment that already has \<open>DB_UID\<close>.
\<close>

theorem load_env_overlay_witness:
  "\<exists>os_environ loaded.
     load_env [''DB_UID'' \<mapsto> ''dba'']
       (Some [''# settings'', ''  '', ''novalue'', '' DB_DSN = pktc # local '', ''DB_DSN=live'']) =
       Returns (os_environ, loaded)
     \<and> os_environ ''DB_DSN'' = Some ''live'' \<and> os_environ ''DB_UID'' = Some ''dba''
     \<and> loaded ''DB_DSN'' = Some ''live'' \<and> loaded ''DB_UID'' = None"
proof -
  let ?ls = "[''# settings'', ''  '', ''novalue'', '' DB_DSN = pktc # local '', ''DB_DSN=live'']"
  have s: "strip ''# settings'' = ''# settings''" "strip ''  '' = []" "strip ''novalue'' = ''novalue''"
    "strip '' DB_DSN = pktc # local '' = ''DB_DSN = pktc # local''" "strip ''DB_DSN=live'' = ''DB_DSN=live''"
    "strip ''DB_DSN '' = ''DB_DSN''" "strip '' pktc # local'' = ''pktc # local''"
    "strip ''pktc '' = ''pktc''" "strip ''live'' = ''live''"
    by (simp_all add: strip_def isspace_def)
  have pairs: "overlay_pairs ?ls = [(''DB_DSN'', ''pktc''), (''DB_DSN'', ''live'')]"
    by (simp add: overlay_pairs_def overlay_line_def overlay_key_def overlay_value_def s
        startswith_def)
  have ok: "\<forall>a\<in>set ?ls. overlay_line a \<longrightarrow> settable (overlay_key a) (overlay_value a)"
    by (simp add: overlay_line_def overlay_key_def overlay_value_def s startswith_def settable_def)
  show ?thesis
    using load_env_overlay[OF ok, of "[''DB_UID'' \<mapsto> ''dba'']"] by (simp add: pairs)
qed

text \<open>
  Claim C7.  For every port and whatever the sockets answer, \<open>select_bind_ip\<close> returns (it
  never raises) an address and the list of addresses attempted.  The candidates are the
  outbound address followed by the host's addresses without the empty and the loopback
  address, de-duplicated keeping first occurrences.  The result is the first candidate that
  binds, with the candidates up to and including it as the attempted list; when none binds
  it is \<open>0.0.0.0\<close>, appended to all candidates as the last attempted entry.  In both cases
  the returned address is the last element of the attempted list.
\<close>

theorem select_bind_ip_spec:
  "\<exists>ip tried.
     select_bind_ip N port = Returns (ip, tried)
     \<and> tried \<noteq> [] \<and> last tried = ip
     \<and> ipv4_candidates N =
         first_seen ((case outbound_ip N of Some a \<Rightarrow> [a] | None \<Rightarrow> []) @
                     (case host_ips N of
                        Some ips \<Rightarrow> filter (\<lambda>a. a \<noteq> [] \<and> a \<noteq> ''127.0.0.1'') ips
                      | None \<Rightarrow> []))
     \<and> distinct (ipv4_candidates N)
     \<and> (case find (\<lambda>c. can_bind N c port) (ipv4_candidates N) of
          Some c \<Rightarrow>
            ip = c \<and> tried = takeWhile (\<lambda>c. \<not> can_bind N c port) (ipv4_candidates N) @ [c]
        | None \<Rightarrow> ip = ''0.0.0.0'' \<and> tried = ipv4_candidates N @ [''0.0.0.0''])"
proof -
  have cands: "ipv4_candidates N =
         first_seen ((case outbound_ip N of Some a \<Rightarrow> [a] | None \<Rightarrow> []) @
                     (case host_ips N of
                        Some ips \<Rightarrow> filter (\<lambda>a. a \<noteq> [] \<and> a \<noteq> ''127.0.0.1'') ips
                      | None \<Rightarrow> []))"
    by (simp add: ipv4_candidates_def uniq_loop_eq Let_def)
  have dist: "distinct (ipv4_candidates N)"
    unfolding cands by (rule distinct_first_seen)
  show ?thesis
  proof (cases "find (\<lambda>c. can_bind N c port) (ipv4_candidates N)")
    case None
    then show ?thesis
      using cands dist by (simp add: select_bind_ip_def select_loop_eq)
  next
    case (Some c)
    then show ?thesis
      using cands dist by (simp add: select_bind_ip_def select_loop_eq)
  qed
qed


section \<open>Properties of the handlers\<close>

lemma extract_token_bearer:
  "authorization req = Some (''Bearer '' @ t) \<Longrightarrow> extract_token req = Returns (Some t)"
  by (simp add: extract_token_def startswith_def split1_def index_def)

lemma startswith_Bearer_space: "startswith hdr ''Bearer '' \<Longrightarrow> CHR '' '' \<in> set hdr"
proof -
  assume "startswith hdr ''Bearer ''"
  then have "take (length ''Bearer '') hdr = ''Bearer ''" by (simp only: startswith_def)
  then have "CHR '' '' \<in> set (take (length ''Bearer '') hdr)" by (simp only: list.set) simp
  then show ?thesis by (rule in_set_takeD)
qed

lemma extract_token_returns: "\<exists>r. extract_token req = Returns r"
proof (cases "startswith (case authorization req of None \<Rightarrow> [] | Some h \<Rightarrow> h) ''Bearer ''")
  case True
  then have "CHR '' '' \<in> set (case authorization req of None \<Rightarrow> [] | Some h \<Rightarrow> h)"
    by (rule startswith_Bearer_space)
  then show ?thesis using True
    by (simp add: extract_token_def Let_def index_def split1_def)
next
  case False
  then show ?thesis by (simp add: extract_token_def Let_def)
qed

lemma decode_sub_valid:
  "jwt_decode W token (JWT_SECRET (environ W)) [JWT_ALGO (environ W)] (now W) = Returns payload \<Longrightarrow>
   map_of payload ''sub'' = Some sub \<Longrightarrow> decode_sub W token = Returns sub"
  by (simp add: decode_sub_def)

lemma jwt_required_valid:
  "valid_token W req sub \<Longrightarrow> jwt_required W view_func req = view_func (req\<lparr>userid := Some sub\<rparr>)"
  unfolding valid_token_def
  by (auto simp: jwt_required_def extract_token_bearer decode_sub_valid)

lemma jwt_required_missing:
  assumes "\<not> startswith (case authorization req of None \<Rightarrow> [] | Some h \<Rightarrow> h) ''Bearer ''
           \<or> authorization req = Some ''Bearer ''"
  shows "jwt_required W view_func req =
     (Returns (JsonResponse (PDict [(''detail'', PStr ''Token missing'')]) 401), [])"
  using assms
  by (auto simp: jwt_required_def extract_token_def token_missing_def startswith_def split1_def
      index_def Let_def)

lemma jwt_required_raised:
  assumes "authorization req = Some (''Bearer '' @ token)" and "token \<noteq> []"
    and "jwt_decode W token (JWT_SECRET (environ W)) [JWT_ALGO (environ W)] (now W) = Raises e"
  shows "jwt_required W view_func req =
     (if exc_class_of e = ExpiredSignatureError
      then (Returns (JsonResponse (PDict [(''detail'', PStr ''Token expired'')]) 401), [])
      else if is_PyJWTError (exc_class_of e)
      then (Returns (JsonResponse (PDict [(''detail'', PStr ''Invalid token'')]) 401), [])
      else (Raises e, []))"
  using assms by (simp add: jwt_required_def extract_token_bearer decode_sub_def)

lemma jwt_required_no_sub:
  assumes "authorization req = Some (''Bearer '' @ token)" and "token \<noteq> []"
    and "jwt_decode W token (JWT_SECRET (environ W)) [JWT_ALGO (environ W)] (now W) = Returns payload"
    and "map_of payload ''sub'' = None"
  shows "jwt_required W view_func req = (Raises (Exc KeyError (CHR 0x27 # ''sub'' @ [CHR 0x27])), [])"
  using assms by (simp add: jwt_required_def extract_token_bearer decode_sub_def)

lemma shape_rows_map:
  "(\<And>r. r \<in> set rows \<Longrightarrow> shape r = Returns (g r)) \<Longrightarrow>
   shape_rows shape rows data = Returns (data @ map g rows)"
  by (induction rows arbitrary: data) auto

lemma encode_cells_values:
  "length ks = length vs \<Longrightarrow> encode_cells (zip ks (map Val vs)) = Returns (zip ks vs)"
  by (induction ks vs rule: list_induct2) auto

lemma encode_records_values:
  "\<forall>r\<in>set rows. length r = length ks \<Longrightarrow>
   encode_records (map (\<lambda>r. zip ks (map Val r)) rows) = Returns (map (\<lambda>r. PDict (zip ks r)) rows)"
  by (induction rows) (auto simp: encode_cells_values)

lemma encode_cells_bytes:
  "(k, Bytes b) \<in> set kcs \<Longrightarrow>
   encode_cells kcs = Raises (Exc TypeError ''Object of type bytes is not JSON serializable'')"
proof (induction kcs)
  case Nil
  then show ?case by simp
next
  case (Cons kc kcs)
  obtain k' c where kc: "kc = (k', c)" by (cases kc)
  show ?case
  proof (cases c)
    case (Val v)
    then have "(k, Bytes b) \<in> set kcs" using Cons.prems kc by auto
    then show ?thesis using Cons.IH kc Val by simp
  next
    case (Bytes b')
    then show ?thesis using kc by simp
  qed
qed

lemma len2: "length r = 2 \<Longrightarrow> \<exists>a b. r = [a, b]"
  by (auto simp: numeral_eq_Suc length_Suc_conv)

lemma len3: "length r = 3 \<Longrightarrow> \<exists>a b c. r = [a, b, c]"
  by (auto simp: numeral_eq_Suc length_Suc_conv)

lemma len11: "length r = 11 \<Longrightarrow> \<exists>a b c d e f g h i j k. r = [a, b, c, d, e, f, g, h, i, j, k]"
  by (auto simp: numeral_eq_Suc length_Suc_conv)

lemma item_record_zip: "length r = 11 \<Longrightarrow> item_record r = Returns (zip (columns Items) r)"
  by (drule len11) (auto simp: item_record_def)

lemma table_record_zip: "length r = 3 \<Longrightarrow> table_record r = Returns (zip (columns DineTables) r)"
  by (drule len3) (auto simp: table_record_def)

lemma setting_record_zip: "length r = 2 \<Longrightarrow> setting_record r = Returns (zip (columns UserSettings) r)"
  by (drule len2) (auto simp: setting_record_def)

lemma category_record_zip:
  "length r = 2 \<Longrightarrow> category_record r = Returns (zip (columns DineCategories) r)"
  by (drule len2) (auto simp: category_record_def)

lemma handler_unfold:
  "handler ep W = jwt_required W (require_http_methods [''GET''] (handler_body ep W))"
  by (cases ep) (simp_all add: get_items_def get_dine_tables_def get_user_settings_def
      get_dine_categories_def)

lemma handler_body_unfold:
  "handler_body ep W req =
     select_rows W (statement ep (given (qd_get (GET req) (filter_param ep))))
       (case ep of Items \<Rightarrow> item_record | DineTables \<Rightarrow> table_record
        | UserSettings \<Rightarrow> setting_record | DineCategories \<Rightarrow> category_record)
       (collection ep)"
  by (cases ep) (simp_all add: get_items_view_def get_dine_tables_view_def
      get_user_settings_view_def get_dine_categories_view_def)

lemma record_zip:
  "length r = length (columns ep) \<Longrightarrow>
   (case ep of Items \<Rightarrow> item_record | DineTables \<Rightarrow> table_record
    | UserSettings \<Rightarrow> setting_record | DineCategories \<Rightarrow> category_record) r =
   Returns (zip (columns ep) r)"
  by (cases ep) (simp_all add: item_record_zip table_record_zip setting_record_zip
      category_record_zip)

lemma select_rows_success:
  assumes "db W q = Returns (map (map Val) rows)"
    and "\<forall>r\<in>set rows. length r = length ks"
    and "\<And>r. r \<in> set rows \<Longrightarrow> shape (map Val r) = Returns (zip ks (map Val r))"
  shows "select_rows W q shape coll =
     (Returns (JsonResponse (PDict [(''status'', PStr ''success''),
        (''count'', PInt (int (length rows))),
        (coll, PList (map (\<lambda>r. PDict (zip ks r)) rows))]) 200), [q])"
proof -
  have "shape_rows shape (map (map Val) rows) [] =
      Returns ([] @ map (\<lambda>r. zip ks r) (map (map Val) rows))"
    by (rule shape_rows_map) (use assms(3) in auto)
  then have shaped: "shape_rows shape (map (map Val) rows) [] =
      Returns (map (\<lambda>r. zip ks (map Val r)) rows)"
    by (simp add: comp_def)
  show ?thesis
    using assms(1) by (simp add: select_rows_def shaped encode_records_values[OF assms(2)])
qed

lemma select_rows_failure:
  "db W q = Raises e \<Longrightarrow> select_rows W q shape coll = (Returns (error_response e), [q])"
  by (simp add: select_rows_def)

lemma select_rows_returns: "\<exists>resp. select_rows W q shape coll = (Returns resp, [q])"
  by (simp add: select_rows_def split: result.splits)

lemma valid_token_upd [simp]: "valid_token W (req\<lparr>GET := qs\<rparr>) sub = valid_token W req sub"
  by (simp add: valid_token_def)

lemma handler_authorised:
  "valid_token W req sub \<Longrightarrow> http_method req = ''GET'' \<Longrightarrow>
   handler ep W req = handler_body ep W (req\<lparr>userid := Some sub\<rparr>)"
  by (simp add: handler_unfold jwt_required_valid require_http_methods_def)

lemma handler_success:
  assumes "valid_token W req sub"
    and "http_method req = ''GET''"
    and "db W (statement ep (given (qd_get (GET req) (filter_param ep)))) = Returns (map (map Val) rows)"
    and "\<forall>r\<in>set rows. length r = length (columns ep)"
  shows "handler ep W req =
     (Returns (JsonResponse (PDict [(''status'', PStr ''success''),
        (''count'', PInt (int (length rows))),
        (collection ep, PList (map (named_record ep) rows))]) 200),
      [statement ep (given (qd_get (GET req) (filter_param ep)))])"
proof -
  have "handler ep W req =
      select_rows W (statement ep (given (qd_get (GET req) (filter_param ep))))
       (case ep of Items \<Rightarrow> item_record | DineTables \<Rightarrow> table_record
        | UserSettings \<Rightarrow> setting_record | DineCategories \<Rightarrow> category_record)
       (collection ep)"
    using assms(1,2) by (simp add: handler_authorised handler_body_unfold)
  also have "\<dots> = (Returns (JsonResponse (PDict [(''status'', PStr ''success''),
        (''count'', PInt (int (length rows))),
        (collection ep, PList (map (\<lambda>r. PDict (zip (columns ep) r)) rows))]) 200),
      [statement ep (given (qd_get (GET req) (filter_param ep)))])"
    by (rule select_rows_success[OF assms(3,4)]) (use assms(4) in \<open>simp add: record_zip\<close>)
  finally show ?thesis
    by (simp add: named_record_def[abs_def])
qed

lemma encode_cells_raises:
  "encode_cells kcs = Raises e \<Longrightarrow> e = Exc TypeError ''Object of type bytes is not JSON serializable''"
proof (induction kcs)
  case Nil
  then show ?case by simp
next
  case (Cons kc kcs)
  obtain k c where kc: "kc = (k, c)" by (cases kc)
  show ?case
  proof (cases c)
    case (Val v)
    then show ?thesis using Cons kc by (auto split: result.splits)
  next
    case (Bytes b)
    then show ?thesis using Cons.prems kc by simp
  qed
qed

lemma encode_records_bytes:
  assumes "(k, Bytes b) \<in> set d"
  shows "d \<in> set data \<Longrightarrow>
    encode_records data = Raises (Exc TypeError ''Object of type bytes is not JSON serializable'')"
proof (induction data)
  case Nil
  then show ?case by simp
next
  case (Cons x xs)
  show ?case
  proof (cases "encode_cells x")
    case (Raises e)
    then show ?thesis using encode_cells_raises[OF Raises] by simp
  next
    case (Returns kvs)
    then have "d \<noteq> x" using encode_cells_bytes[OF assms] by auto
    then have "d \<in> set xs" using Cons.prems by simp
    then show ?thesis using Cons.IH Returns by simp
  qed
qed

lemma select_rows_bytes:
  assumes "db W q = Returns rows"
    and "shape_rows shape rows [] = Returns data"
    and "d \<in> set data" and "(k, Bytes b) \<in> set d"
  shows "select_rows W q shape coll =
     (Returns (JsonResponse (PDict [(''status'', PStr ''error''),
        (''detail'', PStr ''Object of type bytes is not JSON serializable'')]) 500), [q])"
  using assms(1,2) encode_records_bytes[OF assms(4,3)]
  by (simp add: select_rows_def error_response_def)

text \<open>
  Claim C3, amended.  For each of the four query endpoints: on a \<open>GET\<close> request with a
  valid token, when the statement the handler sends (filtered by the one optional key if
  that is given and non-empty, else unfiltered) succeeds with a sequence of rows, each
  with the columns of the \<open>SELECT\<close> list and each cell a value that \<open>JsonResponse\<close> can
  encode (no \<open>bytes\<close>), the answer is status 200 with \<open>status = "success"\<close>, \<open>count\<close> the
  number of rows, and the collection holding, in the order of the rows, the record that
  names the values of each row position by position.  In particular no row gives count 0
  and the empty collection.  (A row with a \<open>bytes\<close> cell is answered with the error
  response: \<open>select_rows_bytes\<close>.)
\<close>

theorem query_endpoint_success:
  assumes "valid_token W req sub"
    and "http_method req = ''GET''"
    and "db W (statement ep (given (qd_get (GET req) (filter_param ep)))) = Returns (map (map Val) rows)"
    and "\<forall>r\<in>set rows. length r = length (columns ep)"
  shows "handler ep W req =
     (Returns (JsonResponse (PDict [(''status'', PStr ''success''),
        (''count'', PInt (int (length rows))),
        (collection ep, PList (map (named_record ep) rows))]) 200),
      [statement ep (given (qd_get (GET req) (filter_param ep)))])
   \<and> (rows = [] \<longrightarrow> handler ep W req =
     (Returns (JsonResponse (PDict [(''status'', PStr ''success''), (''count'', PInt 0),
        (collection ep, PList [])]) 200),
      [statement ep (given (qd_get (GET req) (filter_param ep)))]))"
  using handler_success[OF assms] by auto

text \<open>
  Claim C4.  For each of the four query endpoints: on a \<open>GET\<close> request with a valid token,
  when connecting, executing or fetching raises an exception \<open>e\<close>, the endpoint returns
  status 500 with \<open>status = "error"\<close> and \<open>detail = str(e)\<close>; and the body of the handler
  returns a response on every request, whatever the database does: no exception leaves it.
\<close>

theorem query_endpoint_db_failure:
  assumes "valid_token W req sub"
    and "http_method req = ''GET''"
    and "db W (statement ep (given (qd_get (GET req) (filter_param ep)))) = Raises e"
  shows "handler ep W req =
     (Returns (JsonResponse (PDict [(''status'', PStr ''error''),
        (''detail'', PStr (str_exc e))]) 500),
      [statement ep (given (qd_get (GET req) (filter_param ep)))])
   \<and> (\<exists>resp qs. handler_body ep W r = (Returns resp, qs))"
proof -
  have "handler ep W req = handler_body ep W (req\<lparr>userid := Some sub\<rparr>)"
    using assms(1,2) by (rule handler_authorised)
  also have "\<dots> = (Returns (error_response e),
      [statement ep (given (qd_get (GET req) (filter_param ep)))])"
    unfolding handler_body_unfold using assms(3) by (simp add: select_rows_failure)
  finally have "handler ep W req =
     (Returns (JsonResponse (PDict [(''status'', PStr ''error''),
        (''detail'', PStr (str_exc e))]) 500),
      [statement ep (given (qd_get (GET req) (filter_param ep)))])"
    by (simp add: error_response_def)
  moreover have "\<exists>resp qs. handler_body ep W r = (Returns resp, qs)"
    unfolding handler_body_unfold using select_rows_returns by blast
  ultimately show ?thesis by simp
qed

lemma GET_userid_comm: "r\<lparr>GET := qs, userid := u\<rparr> = r\<lparr>userid := u, GET := qs\<rparr>"
  by (cases r) simp

lemma handler_empty_filter:
  assumes "qd_get (GET req) (filter_param ep) = Some []"
    and "qd_get qs (filter_param ep) = None"
  shows "handler ep W (req\<lparr>GET := qs\<rparr>) = handler ep W req"
proof -
  have body: "handler_body ep W (r\<lparr>GET := qs\<rparr>) = handler_body ep W r"
    if "qd_get (GET r) (filter_param ep) = Some []" for r
    using that assms(2) by (simp add: handler_body_unfold given_def)
  have "require_http_methods [''GET''] (handler_body ep W) (req\<lparr>GET := qs, userid := Some s\<rparr>) =
        require_http_methods [''GET''] (handler_body ep W) (req\<lparr>userid := Some s\<rparr>)" for s
    using body[of "req\<lparr>userid := Some s\<rparr>"] assms(1)
    by (simp add: require_http_methods_def GET_userid_comm)
  moreover have "extract_token (req\<lparr>GET := qs\<rparr>) = extract_token req"
    by (simp add: extract_token_def)
  ultimately show ?thesis
    by (simp add: handler_unfold jwt_required_def split: result.splits option.splits)
qed

text \<open>
  Claim C10.  For each of the four query endpoints, take a request whose filter parameter
  is present with the empty string as its value.  It is answered exactly as the same
  request with the parameter absent, whatever the token and the database.  And when its
  token is valid, it is a \<open>GET\<close> and the unfiltered statement succeeds with rows (each with
  the columns of the \<open>SELECT\<close> list, each cell a value), the answer is the success answer
  with the full collection: all rows of the unfiltered statement, counted and in order,
  not an error and not the rows of a statement filtered on the empty value.
\<close>

theorem empty_filter_is_absent:
  assumes "qd_get (GET req) (filter_param ep) = Some []"
    and "qd_get qs (filter_param ep) = None"
  shows "handler ep W (req\<lparr>GET := qs\<rparr>) = handler ep W req
   \<and> (valid_token W req sub \<and> http_method req = ''GET'' \<and>
       db W (statement ep None) = Returns (map (map Val) rows) \<and>
       (\<forall>r\<in>set rows. length r = length (columns ep)) \<longrightarrow>
       handler ep W req =
         (Returns (JsonResponse (PDict [(''status'', PStr ''success''),
            (''count'', PInt (int (length rows))),
            (collection ep, PList (map (named_record ep) rows))]) 200),
          [statement ep None]))"
proof -
  have same: "handler ep W (req\<lparr>GET := qs\<rparr>) = handler ep W req"
    using assms by (rule handler_empty_filter)
  have unfiltered: "given (qd_get (GET req) (filter_param ep)) = None"
    using assms(1) by (simp add: given_def)
  have "handler ep W req =
         (Returns (JsonResponse (PDict [(''status'', PStr ''success''),
            (''count'', PInt (int (length rows))),
            (collection ep, PList (map (named_record ep) rows))]) 200),
          [statement ep None])"
    if "valid_token W req sub" "http_method req = ''GET''"
      "db W (statement ep None) = Returns (map (map Val) rows)"
      "\<forall>r\<in>set rows. length r = length (columns ep)"
    using handler_success[of W req sub ep rows] that unfiltered by simp
  then show ?thesis using same by blast
qed

lemma strip_Nil [simp]: "strip [] = []"
  by (simp add: strip_def)

lemma or_empty_strip_PStr [simp]: "or_empty_strip (PStr s) = Returns (strip s)"
  by (simp add: or_empty_strip_def)

lemma or_empty_strip_PNone [simp]: "or_empty_strip PNone = Returns []"
  by (simp add: or_empty_strip_def)

lemma login_fields_text:
  assumes "body req = Json (PDict d)"
    and "text_field d ''userid'' us"
    and "text_field d ''password'' ps"
  shows "login_fields req = Returns (strip us, strip ps)"
  using assms by (auto simp: login_fields_def text_field_def)

lemma login_fields_malformed: "body req = Malformed \<Longrightarrow> \<exists>e. login_fields req = Raises e"
  by (simp add: login_fields_def)

text \<open>
  Claim C5.  On a \<open>POST\<close>, \<open>login\<close> answers a body that is not JSON with status 400 and
  \<open>Invalid JSON\<close>.  On a JSON object that submits texts for \<open>userid\<close> and \<open>password\<close>, both
  are trimmed: if either is empty after trimming the answer is status 400 with
  \<open>userid & password required\<close> and no statement is sent to the database; otherwise the
  credential statement is sent with the two trimmed texts, no row gives status 401 with
  \<open>Invalid credentials\<close>, and a database failure gives status 500 with \<open>DB error:\<close> and
  the message.
\<close>

theorem login_failures:
  assumes "http_method req = ''POST''"
  shows "(body req = Malformed \<longrightarrow>
            login W req =
              (Returns (JsonResponse (PDict [(''detail'', PStr ''Invalid JSON'')]) 400), []))
   \<and> (body req = Json (PDict d) \<and> text_field d ''userid'' us \<and> text_field d ''password'' ps \<longrightarrow>
        (strip us = [] \<or> strip ps = [] \<longrightarrow>
           login W req =
             (Returns (JsonResponse (PDict [(''detail'', PStr ''userid & password required'')]) 400),
              []))
      \<and> (strip us \<noteq> [] \<and> strip ps \<noteq> [] \<and>
           db W (SelectUser (strip us) (strip ps)) = Returns [] \<longrightarrow>
           login W req =
             (Returns (JsonResponse (PDict [(''detail'', PStr ''Invalid credentials'')]) 401),
              [SelectUser (strip us) (strip ps)]))
      \<and> (strip us \<noteq> [] \<and> strip ps \<noteq> [] \<and>
           db W (SelectUser (strip us) (strip ps)) = Raises e \<longrightarrow>
           login W req =
             (Returns (JsonResponse (PDict [(''detail'', PStr (''DB error: '' @ str_exc e))]) 500),
              [SelectUser (strip us) (strip ps)])))"
proof -
  have unfold: "login W req = login_view W req"
    using assms by (simp add: login_def require_http_methods_def)
  have malformed: "login_view W req =
      (Returns (JsonResponse (PDict [(''detail'', PStr ''Invalid JSON'')]) 400), [])"
    if "body req = Malformed"
    using login_fields_malformed[OF that] by (auto simp: login_view_def)
  have fields: "login_fields req = Returns (strip us, strip ps)"
    if "body req = Json (PDict d)" "text_field d ''userid'' us" "text_field d ''password'' ps"
    using that by (rule login_fields_text)
  show ?thesis
    unfolding unfold using malformed fields by (auto simp: login_view_def)
qed

text \<open>
  Claim C6.  On a \<open>POST\<close> with a JSON object, \<open>pair_check\<close> answers status 401 with
  \<open>Invalid password\<close> exactly when the value under \<open>password\<close> is not the string equal,
  character by character, to the configured pairing secret; only the equal string gets
  past the check.
\<close>

theorem pair_check_exact:
  assumes "http_method req = ''POST''"
    and "body req = Json (PDict d)"
  shows "(pair_check W H req =
            (Returns (JsonResponse (PDict [(''detail'', PStr ''Invalid password'')]) 401), []))
         \<longleftrightarrow> map_of d ''password'' \<noteq> Some (PStr (PAIR_PASSWORD (environ W)))"
  using assms
  by (auto simp: pair_check_def require_http_methods_def pair_check_view_def
      split: option.splits result.splits)



















lemma demo_secret [simp]: "JWT_SECRET Map.empty = ''dev-secret-change-me''"
  by (simp add: JWT_SECRET_def)

lemma demo_algo [simp]: "JWT_ALGO Map.empty = ''HS256''"
  by (simp add: JWT_ALGO_def getenv_def)

lemma demo_token_decodes:
  "ref_decode ''605800.dev-secret-change-me.alice'' ''dev-secret-change-me'' algs 1000 =
     Returns [(''sub'', PStr ''alice''), (''exp'', PInt 605800)]"
  by (simp add: ref_decode_def Let_def is_digit_def parse_nat_def startswith_def)

lemma demo_valid_token:
  "authorization req = Some ''Bearer 605800.dev-secret-change-me.alice'' \<Longrightarrow>
   valid_token (ref_world Map.empty 1000 d) req (PStr ''alice'')"
  unfolding valid_token_def
  by (rule exI[of _ "''605800.dev-secret-change-me.alice''"])
     (simp add: ref_world_def demo_token_decodes)



lemma demo_world_sel [simp]:
  "environ demo_world = Map.empty" "now demo_world = 1000" "db demo_world = demo_db"
  "jwt_encode demo_world = ref_encode" "jwt_decode demo_world = ref_decode"
  "environ down_world = Map.empty" "now down_world = 1000" "db down_world = down_db"
  "jwt_encode down_world = ref_encode" "jwt_decode down_world = ref_decode"
  by (simp_all add: demo_world_def down_world_def ref_world_def)

lemma demo_get_sel [simp]:
  "http_method demo_get = ''GET''"
  "authorization demo_get = Some ''Bearer 605800.dev-secret-change-me.alice''"
  "GET demo_get = []"
  by (simp_all add: demo_get_def)

lemma demo_post_sel [simp]:
  "http_method (demo_post v) = ''POST''" "body (demo_post v) = Json v"
  by (simp_all add: demo_post_def)

text \<open>
  Claim C3, as stated, fails: the items statement succeeds with one row of eleven cells,
  the token is valid, and the answer is not the success record but status 500 with
  \<open>status = "error"\<close>, because the image cell is \<open>bytes\<close> and the encoder refuses it while
  the \<open>JsonResponse\<close> is built inside the \<open>try\<close> block.
\<close>

theorem query_endpoint_bytes_counterexample:
  "db blob_world (SelectItems None) = Returns [blob_item] \<and> length blob_item = 11 \<and>
   valid_token blob_world demo_get (PStr ''alice'') \<and>
   handler Items blob_world demo_get =
     (Returns (JsonResponse (PDict [(''status'', PStr ''error''),
        (''detail'', PStr ''Object of type bytes is not JSON serializable'')]) 500),
      [SelectItems None])"
proof -
  have v: "valid_token blob_world demo_get (PStr ''alice'')"
    unfolding blob_world_def by (rule demo_valid_token) (simp add: demo_get_def)
  have d: "db blob_world (SelectItems None) = Returns [blob_item]"
    by (simp add: blob_world_def ref_world_def)
  have "handler Items blob_world demo_get =
      select_rows blob_world (SelectItems None) item_record ''items''"
    using handler_authorised[OF v, of Items]
    by (simp add: demo_get_def get_items_view_def qd_get_def given_def)
  also have "\<dots> = (Returns (JsonResponse (PDict [(''status'', PStr ''error''),
        (''detail'', PStr ''Object of type bytes is not JSON serializable'')]) 500),
      [SelectItems None])"
    by (simp add: select_rows_def d blob_item_def item_record_def error_response_def)
  finally show ?thesis
    using v d by (simp add: blob_item_def)
qed

text \<open>
  The two dine tables of the example database, and the filter \<open>T99\<close> that matches none.
\<close>

theorem query_endpoint_success_witness:
  "handler DineTables demo_world demo_get =
     (Returns (JsonResponse (PDict [(''status'', PStr ''success''), (''count'', PInt 2),
        (''tables'', PList [
           PDict [(''tableno'', PStr ''T01''), (''description'', PStr ''Window''), (''section'', PStr ''A'')],
           PDict [(''tableno'', PStr ''T02''), (''description'', PStr ''Bar''), (''section'', PStr ''B'')]])]) 200),
      [SelectDineTables None])
   \<and> handler DineTables demo_world (demo_get\<lparr>GET := [(''tableno'', ''T99'')]\<rparr>) =
     (Returns (JsonResponse (PDict [(''status'', PStr ''success''), (''count'', PInt 0),
        (''tables'', PList [])]) 200),
      [SelectDineTables (Some ''T99'')])"
proof -
  have v: "valid_token demo_world demo_get (PStr ''alice'')"
    unfolding demo_world_def by (rule demo_valid_token) simp
  have v': "valid_token demo_world (demo_get\<lparr>GET := [(''tableno'', ''T99'')]\<rparr>) (PStr ''alice'')"
    unfolding demo_world_def by (rule demo_valid_token) simp
  have m: "http_method demo_get = ''GET''"
    by simp
  have m': "http_method (demo_get\<lparr>GET := [(''tableno'', ''T99'')]\<rparr>) = ''GET''"
    by simp
  have all: "db demo_world (statement DineTables (given (qd_get (GET demo_get) (filter_param DineTables))))
      = Returns (map (map Val) demo_tables)"
    by (simp add: qd_get_def given_def)
  have cols: "\<forall>r\<in>set demo_tables. length r = length (columns DineTables)"
    by (simp add: demo_tables_def)
  have none: "db demo_world (statement DineTables
      (given (qd_get (GET (demo_get\<lparr>GET := [(''tableno'', ''T99'')]\<rparr>)) (filter_param DineTables))))
      = Returns (map (map Val) [])"
    by (simp add: qd_get_def given_def demo_tables_def)
  have "handler DineTables demo_world demo_get =
     (Returns (JsonResponse (PDict [(''status'', PStr ''success''), (''count'', PInt 2),
        (''tables'', PList [
           PDict [(''tableno'', PStr ''T01''), (''description'', PStr ''Window''), (''section'', PStr ''A'')],
           PDict [(''tableno'', PStr ''T02''), (''description'', PStr ''Bar''), (''section'', PStr ''B'')]])]) 200),
      [SelectDineTables None])"
    using query_endpoint_success[OF v m all cols]
    by (simp add: demo_tables_def named_record_def qd_get_def given_def)
  moreover have "handler DineTables demo_world (demo_get\<lparr>GET := [(''tableno'', ''T99'')]\<rparr>) =
     (Returns (JsonResponse (PDict [(''status'', PStr ''success''), (''count'', PInt 0),
        (''tables'', PList [])]) 200),
      [SelectDineTables (Some ''T99'')])"
    using query_endpoint_success[OF v' m' none]
    by (simp add: qd_get_def given_def)
  ultimately show ?thesis by simp
qed

text \<open>The items endpoint against a database that cannot be reached.\<close>

theorem query_endpoint_db_failure_witness:
  "handler Items down_world demo_get =
     (Returns (JsonResponse (PDict [(''status'', PStr ''error''),
        (''detail'', PStr ''Database server not found'')]) 500),
      [SelectItems None])"
proof -
  have v: "valid_token down_world demo_get (PStr ''alice'')"
    unfolding down_world_def by (rule demo_valid_token) simp
  have f: "db down_world (statement Items (given (qd_get (GET demo_get) (filter_param Items))))
      = Raises (Exc DatabaseError ''Database server not found'')"
    by (simp add: down_db_def)
  show ?thesis
    using query_endpoint_db_failure[OF v demo_get_sel(1) f] by (simp add: qd_get_def given_def)
qed

text \<open>\<open>GET /dine-tables/?tableno=\<close> against \<open>GET /dine-tables/\<close>.\<close>

theorem empty_filter_is_absent_witness:
  "handler DineTables demo_world (demo_get\<lparr>GET := [(''tableno'', [])]\<rparr>) =
     (Returns (JsonResponse (PDict [(''status'', PStr ''success''), (''count'', PInt 2),
        (''tables'', PList [
           PDict [(''tableno'', PStr ''T01''), (''description'', PStr ''Window''), (''section'', PStr ''A'')],
           PDict [(''tableno'', PStr ''T02''), (''description'', PStr ''Bar''), (''section'', PStr ''B'')]])]) 200),
      [SelectDineTables None])
   \<and> handler DineTables demo_world (demo_get\<lparr>GET := []\<rparr>) =
     handler DineTables demo_world (demo_get\<lparr>GET := [(''tableno'', [])]\<rparr>)"
proof -
  let ?req = "demo_get\<lparr>GET := [(''tableno'', [])]\<rparr>"
  have p: "qd_get (GET ?req) (filter_param DineTables) = Some []"
    by (simp add: qd_get_def)
  have a: "qd_get [] (filter_param DineTables) = None"
    by (simp add: qd_get_def)
  have v: "valid_token demo_world ?req (PStr ''alice'')"
    unfolding demo_world_def by (rule demo_valid_token) simp
  have m: "http_method ?req = ''GET''"
    by simp
  have d: "db demo_world (statement DineTables None) = Returns (map (map Val) demo_tables)"
    by simp
  have cols: "\<forall>r\<in>set demo_tables. length r = length (columns DineTables)"
    by (simp add: demo_tables_def)
  show ?thesis
    using empty_filter_is_absent[OF p a, of demo_world "PStr ''alice''" demo_tables] v m d cols
    by (simp add: demo_tables_def named_record_def)
qed

text \<open>\<open>imc-mobile\<close> fails against the configured \<open>IMC-MOBILE\<close>, which itself passes.\<close>

theorem pair_check_exact_witness:
  "pair_check demo_world demo_host (demo_post (PDict [(''password'', PStr ''imc-mobile'')])) =
     (Returns (JsonResponse (PDict [(''detail'', PStr ''Invalid password'')]) 401), [])
   \<and> pair_check demo_world demo_host (demo_post (PDict [(''password'', PStr ''IMC-MOBILE'')])) \<noteq>
     (Returns (JsonResponse (PDict [(''detail'', PStr ''Invalid password'')]) 401), [])"
proof -
  have secret: "PAIR_PASSWORD Map.empty = ''IMC-MOBILE''"
    by (simp add: PAIR_PASSWORD_def getenv_def)
  show ?thesis
    using pair_check_exact[of "demo_post (PDict [(''password'', PStr ''imc-mobile'')])"
        "[(''password'', PStr ''imc-mobile'')]" demo_world demo_host]
      pair_check_exact[of "demo_post (PDict [(''password'', PStr ''IMC-MOBILE'')])"
        "[(''password'', PStr ''IMC-MOBILE'')]" demo_world demo_host]
    by (simp add: secret)
qed



lemma strip_word [simp]:
  "strip ''alice'' = ''alice''" "strip ''wonder'' = ''wonder''" "strip ''bob'' = ''bob''"
  "strip ''nope'' = ''nope''" "strip ''  '' = []"
  by (simp_all add: strip_def isspace_def)


text \<open>One request for each of the four failures.\<close>

theorem login_failures_witness:
  "login demo_world (demo_post (PDict [])\<lparr>body := Malformed\<rparr>) =
     (Returns (JsonResponse (PDict [(''detail'', PStr ''Invalid JSON'')]) 400), [])
   \<and> login demo_world (demo_post (PDict [(''userid'', PStr ''  ''), (''password'', PStr ''wonder'')])) =
     (Returns (JsonResponse (PDict [(''detail'', PStr ''userid & password required'')]) 400), [])
   \<and> login demo_world (demo_post (PDict [(''userid'', PStr ''bob''), (''password'', PStr ''nope'')])) =
     (Returns (JsonResponse (PDict [(''detail'', PStr ''Invalid credentials'')]) 401),
      [SelectUser ''bob'' ''nope''])
   \<and> login down_world (demo_post (PDict [(''userid'', PStr ''alice''), (''password'', PStr ''wonder'')])) =
     (Returns (JsonResponse (PDict [(''detail'', PStr ''DB error: Database server not found'')]) 500),
      [SelectUser ''alice'' ''wonder''])"
proof -
  have a: "login demo_world (demo_post (PDict [])\<lparr>body := Malformed\<rparr>) =
     (Returns (JsonResponse (PDict [(''detail'', PStr ''Invalid JSON'')]) 400), [])"
    using login_failures[of "demo_post (PDict [])\<lparr>body := Malformed\<rparr>" demo_world]
    by (simp add: demo_post_def)
  have b: "login demo_world (demo_post (PDict [(''userid'', PStr ''  ''), (''password'', PStr ''wonder'')])) =
     (Returns (JsonResponse (PDict [(''detail'', PStr ''userid & password required'')]) 400), [])"
    using login_failures[of "demo_post (PDict [(''userid'', PStr ''  ''), (''password'', PStr ''wonder'')])"
        demo_world "[(''userid'', PStr ''  ''), (''password'', PStr ''wonder'')]" "''  ''" "''wonder''"]
    by (simp add: text_field_def)
  have c: "login demo_world (demo_post (PDict [(''userid'', PStr ''bob''), (''password'', PStr ''nope'')])) =
     (Returns (JsonResponse (PDict [(''detail'', PStr ''Invalid credentials'')]) 401),
      [SelectUser ''bob'' ''nope''])"
    using login_failures[of "demo_post (PDict [(''userid'', PStr ''bob''), (''password'', PStr ''nope'')])"
        demo_world "[(''userid'', PStr ''bob''), (''password'', PStr ''nope'')]" "''bob''" "''nope''"]
    by (simp add: text_field_def)
  have d: "login down_world (demo_post (PDict [(''userid'', PStr ''alice''), (''password'', PStr ''wonder'')])) =
     (Returns (JsonResponse (PDict [(''detail'', PStr ''DB error: Database server not found'')]) 500),
      [SelectUser ''alice'' ''wonder''])"
    using login_failures[of "demo_post (PDict [(''userid'', PStr ''alice''), (''password'', PStr ''wonder'')])"
        down_world "[(''userid'', PStr ''alice''), (''password'', PStr ''wonder'')]" "''alice''" "''wonder''"
        "Exc DatabaseError ''Database server not found''"]
    by (simp add: text_field_def down_db_def)
  show ?thesis using a b c d by simp
qed

lemma JWT_SECRET_nonempty: "JWT_SECRET e \<noteq> []"
  by (simp add: JWT_SECRET_def split: option.splits)

lemma PAIR_PASSWORD_unset: "e ''PAIR_PASSWORD'' = None \<Longrightarrow> PAIR_PASSWORD e = ''IMC-MOBILE''"
  by (simp add: PAIR_PASSWORD_def getenv_def)

lemma PAIR_PASSWORD_set: "e ''PAIR_PASSWORD'' = Some v \<Longrightarrow> PAIR_PASSWORD e = v"
  by (simp add: PAIR_PASSWORD_def getenv_def)

text \<open>
  Claim C9.  The signing secret is never empty (\<open>JWT_SECRET_nonempty\<close>), and the pairing
  password is the default when its variable is unset (\<open>PAIR_PASSWORD_unset\<close>).  But a
  variable set to the empty string makes the pairing password empty: the overlay line
  \<open>PAIR_PASSWORD=\<close> sets the variable to the empty string, \<open>PAIR_PASSWORD\<close> is then empty,
  and \<open>pair_check\<close> accepts the empty password.
\<close>

theorem pair_password_can_be_empty:
  "load_env Map.empty (Some [''PAIR_PASSWORD='']) =
     Returns ([''PAIR_PASSWORD'' \<mapsto> []], [''PAIR_PASSWORD'' \<mapsto> []])
   \<and> PAIR_PASSWORD [''PAIR_PASSWORD'' \<mapsto> []] = []
   \<and> pair_check (ref_world [''PAIR_PASSWORD'' \<mapsto> []] 1000 demo_db) demo_host
        (demo_post (PDict [(''password'', PStr [])])) =
     (Returns (JsonResponse (PDict [(''status'', PStr ''success''),
        (''message'', PStr ''SyncService launched successfully''),
        (''pair_successful'', PBool True)]) 200), [])"
proof -
  have "load_env Map.empty (Some [''PAIR_PASSWORD='']) =
     Returns ([''PAIR_PASSWORD'' \<mapsto> []], [''PAIR_PASSWORD'' \<mapsto> []])"
    by (simp add: load_env_def env_line_def strip_def isspace_def startswith_def split1_def
        strip_comment_def environ_setitem_def Let_def)
  moreover have p: "PAIR_PASSWORD [''PAIR_PASSWORD'' \<mapsto> []] = []"
    by (simp add: PAIR_PASSWORD_def getenv_def)
  moreover have "pair_check (ref_world [''PAIR_PASSWORD'' \<mapsto> []] 1000 demo_db) demo_host
        (demo_post (PDict [(''password'', PStr [])])) =
     (Returns (JsonResponse (PDict [(''status'', PStr ''success''),
        (''message'', PStr ''SyncService launched successfully''),
        (''pair_successful'', PBool True)]) 200), [])"
    by (simp add: pair_check_def require_http_methods_def pair_check_view_def ref_world_def p
        demo_host_def startswith_def)
  ultimately show ?thesis by simp
qed

lemma demo_token_nosub:
  "ref_decode ''605800.dev-secret-change-me'' ''dev-secret-change-me'' algs 1000 =
     Returns [(''exp'', PInt 605800)]"
  by (simp add: ref_decode_def Let_def is_digit_def parse_nat_def startswith_def)

text \<open>
  Claim C2.  A missing or malformed header gives \<open>Token missing\<close> (\<open>jwt_required_missing\<close>),
  an expired signature \<open>Token expired\<close> and every other error of the library \<open>Invalid
  token\<close> (\<open>jwt_required_raised\<close>), and a valid token with a subject lets the request
  proceed (\<open>jwt_required_valid\<close>).  But a token that is correctly signed, not expired and
  carries no \<open>sub\<close> is none of these: \<open>payload["sub"]\<close> raises \<open>KeyError\<close>, which neither
  handler catches, and the exception leaves the endpoint.
\<close>

theorem token_without_subject_raises:
  "verify_token demo_world (demo_get\<lparr>authorization := Some ''Bearer 605800.dev-secret-change-me''\<rparr>) =
     (Raises (Exc KeyError (CHR 0x27 # ''sub'' @ [CHR 0x27])), [])"
proof -
  have "extract_token (demo_get\<lparr>authorization := Some ''Bearer 605800.dev-secret-change-me''\<rparr>) =
      Returns (Some ''605800.dev-secret-change-me'')"
    by (rule extract_token_bearer) simp
  moreover have "decode_sub demo_world ''605800.dev-secret-change-me'' =
      Raises (Exc KeyError (CHR 0x27 # ''sub'' @ [CHR 0x27]))"
    by (simp add: decode_sub_def demo_token_nosub)
  ultimately show ?thesis
    by (simp add: verify_token_def jwt_required_def)
qed

end
